theory Spec2Isabelle
  imports Main "HOL-Library.Word"
begin

unbundle bit_operations_syntax

section \<open>Data model\<close>

type_synonym byte = "8 word"

text \<open>
  \<^verbatim>\<open>primitive.Binary{Subtype byte; Data []byte}\<close> of the BSON library: the tagged
  binary value that the identifier codec produces and consumes.
\<close>

record Binary =
  Subtype :: byte
  Data :: "byte list"

text \<open>
  The errors of \<^verbatim>\<open>encoding/hex\<close>: \<^verbatim>\<open>InvalidByteError(c)\<close> for a byte that is no hex
  digit, \<^verbatim>\<open>ErrLength\<close> for an odd number of digits.
\<close>

datatype hex_error = InvalidByteError char | ErrLength

text \<open>
  The error values the codec functions of \<^verbatim>\<open>mongo.go\<close> build with \<^verbatim>\<open>fmt.Errorf\<close>, one
  constructor for each format string, carrying the argument of the format:
  \<^item> \<open>FormatError s\<close>: \<^verbatim>\<open>"invalid UUID format: %s"\<close>;
  \<^item> \<open>DecodeError e\<close>: \<^verbatim>\<open>"error decoding UUID string: %v"\<close>;
  \<^item> \<open>UnsupportedSubtypeError t\<close>: \<^verbatim>\<open>"unsupported binary subtype: %d"\<close>;
  \<^item> \<open>InvalidLengthError n\<close>: \<^verbatim>\<open>"invalid UUID binary length: expected 16 bytes, got %d"\<close>;
  \<^item> \<open>RandomSourceError m\<close>: the error of \<^verbatim>\<open>rand.Read\<close>, returned as it is.

  The document client returns the driver's errors unchanged: \<open>ErrNoDocuments\<close> is
  \<^verbatim>\<open>mongo.ErrNoDocuments\<close>, \<open>DriverError m\<close> any other error of the driver, with its message.
\<close>

datatype error =
    FormatError string
  | DecodeError hex_error
  | UnsupportedSubtypeError byte
  | InvalidLengthError nat
  | RandomSourceError string
  | ErrNoDocuments
  | DriverError string

section \<open>The library functions the identifier codec calls\<close>

subsection \<open>\<^verbatim>\<open>encoding/hex\<close>\<close>

text \<open>\<^verbatim>\<open>const hextable = "0123456789abcdef"\<close>\<close>

definition hextable :: string where
  "hextable = ''0123456789abcdef''"

text \<open>
  \<^verbatim>\<open>hex.EncodeToString\<close>: for every byte \<open>v\<close> the two characters
  \<^verbatim>\<open>hextable[v>>4]\<close> and \<^verbatim>\<open>hextable[v&0x0f]\<close>.
\<close>

definition encodeByte :: "byte \<Rightarrow> string" where
  "encodeByte v = [hextable ! unat (drop_bit 4 v), hextable ! unat (v AND 0x0f)]"

definition EncodeToString :: "byte list \<Rightarrow> string" where
  "EncodeToString src = concat (map encodeByte src)"

text \<open>
  \<^verbatim>\<open>fromHexChar\<close>: the value of a hex digit of either case, \<open>None\<close> for any other byte
  (the second result \<^verbatim>\<open>false\<close> of the Go function).
\<close>

definition fromHexChar :: "char \<Rightarrow> byte option" where
  "fromHexChar c =
     (let n = (of_char c :: nat) in
      if 48 \<le> n \<and> n \<le> 57 then Some (of_nat (n - 48))
      else if 97 \<le> n \<and> n \<le> 102 then Some (of_nat (n - 97 + 10))
      else if 65 \<le> n \<and> n \<le> 70 then Some (of_nat (n - 65 + 10))
      else None)"

text \<open>
  \<^verbatim>\<open>hex.DecodeString\<close>: two digits make one byte, \<^verbatim>\<open>(a << 4) | b\<close>; the first byte that is
  no hex digit ends the decoding with \<^verbatim>\<open>InvalidByteError\<close>; a single digit left over at
  the end gives \<^verbatim>\<open>ErrLength\<close>. The Go function also returns the bytes decoded before the
  error; its only caller here drops them, so the model returns the error alone.
\<close>

fun DecodeString :: "string \<Rightarrow> hex_error + byte list" where
  "DecodeString [] = Inr []"
| "DecodeString [q] =
     (case fromHexChar q of
        None \<Rightarrow> Inl (InvalidByteError q)
      | Some _ \<Rightarrow> Inl ErrLength)"
| "DecodeString (p # q # rest) =
     (case fromHexChar p of
        None \<Rightarrow> Inl (InvalidByteError p)
      | Some a \<Rightarrow>
          (case fromHexChar q of
             None \<Rightarrow> Inl (InvalidByteError q)
           | Some b \<Rightarrow>
               (case DecodeString rest of
                  Inl e \<Rightarrow> Inl e
                | Inr bs \<Rightarrow> Inr ((push_bit 4 a OR b) # bs))))"

subsection \<open>\<^verbatim>\<open>regexp\<close>, for the one pattern of \<^verbatim>\<open>ConvertStringToUuid\<close>\<close>

text \<open>The character class \<^verbatim>\<open>[0-9a-fA-F]\<close>.\<close>

definition isHexDigit :: "char \<Rightarrow> bool" where
  "isHexDigit c =
     (let n = (of_char c :: nat) in
      (48 \<le> n \<and> n \<le> 57) \<or> (97 \<le> n \<and> n \<le> 102) \<or> (65 \<le> n \<and> n \<le> 70))"

text \<open>
  A capture group \<^verbatim>\<open>([0-9a-fA-F]{n})\<close> at the head of the input: the group and the rest of
  the input, or \<open>None\<close> when fewer than \<open>n\<close> hex digits stand there.
\<close>

fun hexGroup :: "nat \<Rightarrow> string \<Rightarrow> (string \<times> string) option" where
  "hexGroup 0 s = Some ([], s)"
| "hexGroup (Suc n) [] = None"
| "hexGroup (Suc n) (c # s) =
     (if isHexDigit c
      then (case hexGroup n s of None \<Rightarrow> None | Some (g, r) \<Rightarrow> Some (c # g, r))
      else None)"

text \<open>
  The optional dash \<^verbatim>\<open>-?\<close> at the head of the input. It is greedy, and what follows it in
  the pattern is a hex digit, which a dash is not: a dash that stands there is always
  consumed.
\<close>

fun optDash :: "string \<Rightarrow> string" where
  "optDash [] = []"
| "optDash (c # s) = (if c = CHR ''-'' then s else c # s)"

text \<open>
  \<^verbatim>\<open>re.FindStringSubmatch(uuid)\<close> for
  \<^verbatim>\<open>^([0-9a-fA-F]{8})-?([0-9a-fA-F]{4})-?([0-9a-fA-F]{4})-?([0-9a-fA-F]{4})-?([0-9a-fA-F]{12})$\<close>:
  \<open>None\<close> is Go's \<^verbatim>\<open>nil\<close>; otherwise the whole match followed by the five groups. The
  pattern is anchored at both ends, so the whole match is the input.
\<close>

definition FindStringSubmatch :: "string \<Rightarrow> string list option" where
  "FindStringSubmatch uuid =
     (case hexGroup 8 uuid of None \<Rightarrow> None | Some (g1, r1) \<Rightarrow>
      (case hexGroup 4 (optDash r1) of None \<Rightarrow> None | Some (g2, r2) \<Rightarrow>
       (case hexGroup 4 (optDash r2) of None \<Rightarrow> None | Some (g3, r3) \<Rightarrow>
        (case hexGroup 4 (optDash r3) of None \<Rightarrow> None | Some (g4, r4) \<Rightarrow>
         (case hexGroup 12 (optDash r4) of None \<Rightarrow> None | Some (g5, r5) \<Rightarrow>
          (if r5 = [] then Some [uuid, g1, g2, g3, g4, g5] else None))))))"

section \<open>Identifier codec\<close>

text \<open>
  \<^verbatim>\<open>ConvertStringToUuid\<close>: match the pattern, join the groups \<^verbatim>\<open>matches[1:]\<close> with the
  empty separator, decode the hex digits, tag the bytes with subtype 4.
\<close>

definition ConvertStringToUuid :: "string \<Rightarrow> error + Binary" where
  "ConvertStringToUuid uuid =
     (case FindStringSubmatch uuid of
        None \<Rightarrow> Inl (FormatError uuid)
      | Some matches \<Rightarrow>
          (let cleanUUID = concat (drop 1 matches) in
           (case DecodeString cleanUUID of
              Inl err \<Rightarrow> Inl (DecodeError err)
            | Inr uuidBytes \<Rightarrow> Inr \<lparr>Subtype = 4, Data = uuidBytes\<rparr>)))"

text \<open>
  The Go slice expression \<^verbatim>\<open>s[lo:hi]\<close>. It panics out of range; in
  \<^verbatim>\<open>ConvertUuidToString\<close> the string has 32 characters and every bound is within it
  (lemma \<open>length_EncodeToString\<close> below).
\<close>

definition slice :: "string \<Rightarrow> nat \<Rightarrow> nat \<Rightarrow> string" where
  "slice s lo hi = take (hi - lo) (drop lo s)"

text \<open>
  \<^verbatim>\<open>ConvertUuidToString\<close>: the subtype is checked first, then the length, then the 32
  hex digits are cut 8-4-4-4-12 and joined by \<^verbatim>\<open>fmt.Sprintf("%s-%s-%s-%s-%s", ...)\<close>.
\<close>

definition ConvertUuidToString :: "Binary \<Rightarrow> error + string" where
  "ConvertUuidToString bin =
     (if Subtype bin \<noteq> 4 then Inl (UnsupportedSubtypeError (Subtype bin))
      else if length (Data bin) \<noteq> 16 then Inl (InvalidLengthError (length (Data bin)))
      else
        (let hexStr = EncodeToString (Data bin) in
         Inr (slice hexStr 0 8 @ ''-'' @ slice hexStr 8 12 @ ''-'' @ slice hexStr 12 16 @ ''-''
              @ slice hexStr 16 20 @ ''-'' @ slice hexStr 20 32)))"

text \<open>
  \<^verbatim>\<open>crypto/rand\<close>: the entropy source either is unavailable, with an error message, or
  delivers a stream of bytes. \<^verbatim>\<open>rand.Read(b)\<close> fills the whole of \<open>b\<close> from the stream,
  or reports the error and leaves \<open>b\<close> as it was.
\<close>

record RandSource =
  unavailable :: "string option"
  stream :: "nat \<Rightarrow> byte"

definition rand_Read :: "RandSource \<Rightarrow> byte list \<Rightarrow> byte list \<times> error option" where
  "rand_Read src b =
     (case unavailable src of
        Some m \<Rightarrow> (b, Some (RandomSourceError m))
      | None \<Rightarrow> (map (stream src) [0..<length b], None))"

text \<open>
  \<^verbatim>\<open>GenerateUuid\<close>: \<^verbatim>\<open>make([]byte, 16)\<close>, filled by \<^verbatim>\<open>rand.Read\<close>, tagged with subtype 4.
  Nothing else touches the bytes.
\<close>

definition GenerateUuid :: "RandSource \<Rightarrow> error + Binary" where
  "GenerateUuid src =
     (let uuid = replicate 16 (0::byte);
          (uuid', err) = rand_Read src uuid
      in (case err of
            Some e \<Rightarrow> Inl e
          | None \<Rightarrow> Inr \<lparr>Subtype = 4, Data = uuid'\<rparr>))"

section \<open>Temporal codec\<close>

text \<open>
  \<^verbatim>\<open>ConvertStringToIsoDate\<close> hands its argument to \<^verbatim>\<open>time.Parse(time.RFC3339, date)\<close> and
  returns what the parser returns. The parser belongs to the Go library and is a parameter
  here: \<open>parse layout value\<close> is the error message or the instant.
\<close>

definition RFC3339 :: string where
  "RFC3339 = ''2006-01-02T15:04:05Z07:00''"

definition ConvertStringToIsoDate :: "(string \<Rightarrow> string \<Rightarrow> string + 't) \<Rightarrow> string \<Rightarrow> string + 't" where
  "ConvertStringToIsoDate parse date =
     (case parse RFC3339 date of
        Inl err \<Rightarrow> Inl err
      | Inr parsedTime \<Rightarrow> Inr parsedTime)"

section \<open>The document store behind the driver\<close>

text \<open>
  A BSON value, as far as the client builds one: \<^verbatim>\<open>bson.D\<close> is an ordered list of
  key/value pairs, and a filter or update of type \<^verbatim>\<open>interface{}\<close> is any value.
\<close>

datatype bson =
    BNull
  | BBool bool
  | BInt int
  | BString string
  | BBinary byte "byte list"
  | BArray "bson list"
  | BDoc "(string \<times> bson) list"

type_synonym document = "(string \<times> bson) list"

type_synonym session = nat

text \<open>\<^verbatim>\<open>options.ReturnDocument\<close> and \<^verbatim>\<open>options.FindOneAndUpdateOptions\<close>.\<close>

datatype ReturnDocument = Before | After

record FindOneAndUpdateOptions =
  ReturnDocumentOpt :: "ReturnDocument option"

definition FindOneAndUpdate_options :: FindOneAndUpdateOptions where
  "FindOneAndUpdate_options = \<lparr>ReturnDocumentOpt = None\<rparr>"

definition SetReturnDocument :: "ReturnDocument \<Rightarrow> FindOneAndUpdateOptions \<Rightarrow> FindOneAndUpdateOptions" where
  "SetReturnDocument rd opts = opts\<lparr>ReturnDocumentOpt := Some rd\<rparr>"

text \<open>
  The calls the client issues to the driver, with their arguments: \<^verbatim>\<open>mongo.Connect\<close> and
  the methods of \<^verbatim>\<open>*mongo.Collection\<close>, each with the session, the database name and the
  collection name it is issued on.
\<close>

datatype driver_call =
    CallConnect string
  | CallUpdateOne session string string bson bson
  | CallUpdateMany session string string bson bson
  | CallFindOneAndUpdate session string string bson bson FindOneAndUpdateOptions

text \<open>
  The driver and the server behind it are not part of the wrapper. What they decide is a
  parameter: whether a connection string yields a session (\<open>drv_dial\<close>), whether a call
  fails in the driver or on the wire (\<open>drv_fault\<close>), which documents a filter selects
  (\<open>drv_matches\<close>) and what an update document does to a document (\<open>drv_apply\<close>).

  \<open>drv_fault\<close> covers the calls the driver refuses before anything reaches the server,
  such as an update document whose first key is no operator.

  Whether a server answers at a connection string (\<open>drv_reachable\<close>) is a fact of its
  own: \<^verbatim>\<open>mongo.Connect\<close> checks the options, builds the client and starts to monitor the
  servers in the background; it does not wait for a server, and its result says nothing
  about one.
\<close>

record Driver =
  drv_dial :: "string \<Rightarrow> string + session"
  drv_fault :: "driver_call \<Rightarrow> string option"
  drv_matches :: "bson \<Rightarrow> document \<Rightarrow> bool"
  drv_apply :: "bson \<Rightarrow> document \<Rightarrow> document"
  drv_reachable :: "string \<Rightarrow> bool"

text \<open>\<^verbatim>\<open>log.Print(s)\<close> and \<^verbatim>\<open>log.Printf(format, err)\<close>, as the lines of the log.\<close>

datatype log_entry = LogPrint string | LogPrintf string error

text \<open>
  What the wrapper acts on: the collections of the server, by database and collection
  name; the calls made to the driver so far; the log.
\<close>

record World =
  store :: "string \<times> string \<Rightarrow> document list"
  calls :: "driver_call list"
  logs :: "log_entry list"

definition log_Print :: "string \<Rightarrow> World \<Rightarrow> World" where
  "log_Print msg w = w\<lparr>logs := logs w @ [LogPrint msg]\<rparr>"

definition log_Printf :: "string \<Rightarrow> error \<Rightarrow> World \<Rightarrow> World" where
  "log_Printf fmt err w = w\<lparr>logs := logs w @ [LogPrintf fmt err]\<rparr>"

definition issue :: "driver_call \<Rightarrow> World \<Rightarrow> World" where
  "issue c w = w\<lparr>calls := calls w @ [c]\<rparr>"

text \<open>
  \<^verbatim>\<open>mongo.Connect(ctx, options.Client().ApplyURI(connURI))\<close>: a session or an error.
\<close>

definition mongo_Connect :: "Driver \<Rightarrow> string \<Rightarrow> World \<Rightarrow> (error + session) \<times> World" where
  "mongo_Connect drv connURI w =
     ((case drv_dial drv connURI of Inl m \<Rightarrow> Inl (DriverError m) | Inr s \<Rightarrow> Inr s),
      issue (CallConnect connURI) w)"

text \<open>The first document that a predicate selects is replaced; the others stay.\<close>

fun updateFirst :: "('a \<Rightarrow> bool) \<Rightarrow> ('a \<Rightarrow> 'a) \<Rightarrow> 'a list \<Rightarrow> 'a list" where
  "updateFirst P f [] = []"
| "updateFirst P f (d # ds) = (if P d then f d # ds else d # updateFirst P f ds)"

text \<open>
  \<^verbatim>\<open>col.UpdateOne(ctx, filter, update)\<close> and \<^verbatim>\<open>col.UpdateMany(ctx, filter, update)\<close> of the
  driver: the update is applied to the first, or to every, document the filter selects.
  No selected document is not an error.
\<close>

definition Collection_UpdateOne ::
  "Driver \<Rightarrow> session \<Rightarrow> string \<Rightarrow> string \<Rightarrow> bson \<Rightarrow> bson \<Rightarrow> World \<Rightarrow> error option \<times> World" where
  "Collection_UpdateOne drv s db col filter' update w =
     (let c = CallUpdateOne s db col filter' update; w1 = issue c w in
      (case drv_fault drv c of
         Some m \<Rightarrow> (Some (DriverError m), w1)
       | None \<Rightarrow>
           (None, w1\<lparr>store := (store w1)
              ((db, col) := updateFirst (drv_matches drv filter') (drv_apply drv update)
                              (store w1 (db, col)))\<rparr>)))"

definition Collection_UpdateMany ::
  "Driver \<Rightarrow> session \<Rightarrow> string \<Rightarrow> string \<Rightarrow> bson \<Rightarrow> bson \<Rightarrow> World \<Rightarrow> error option \<times> World" where
  "Collection_UpdateMany drv s db col filter' update w =
     (let c = CallUpdateMany s db col filter' update; w1 = issue c w in
      (case drv_fault drv c of
         Some m \<Rightarrow> (Some (DriverError m), w1)
       | None \<Rightarrow>
           (None, w1\<lparr>store := (store w1)
              ((db, col) := map (\<lambda>d. if drv_matches drv filter' d then drv_apply drv update d else d)
                              (store w1 (db, col)))\<rparr>)))"

text \<open>
  \<^verbatim>\<open>*mongo.SingleResult\<close>: the error of the call, or the document it returned.
\<close>

record SingleResult =
  Err :: "error option"
  Doc :: "document option"

text \<open>
  \<^verbatim>\<open>col.FindOneAndUpdate(ctx, filter, update, opts)\<close> of the driver: the first document the
  filter selects is updated, and the result holds that document as it was before the
  update, unless the option \<^verbatim>\<open>ReturnDocument\<close> is \<^verbatim>\<open>After\<close>; with no selected document the
  result holds \<^verbatim>\<open>ErrNoDocuments\<close> and the collection stays as it is.
\<close>

definition Collection_FindOneAndUpdate ::
  "Driver \<Rightarrow> session \<Rightarrow> string \<Rightarrow> string \<Rightarrow> bson \<Rightarrow> bson \<Rightarrow> FindOneAndUpdateOptions \<Rightarrow> World
     \<Rightarrow> SingleResult \<times> World" where
  "Collection_FindOneAndUpdate drv s db col filter' update opts w =
     (let c = CallFindOneAndUpdate s db col filter' update opts; w1 = issue c w in
      (case drv_fault drv c of
         Some m \<Rightarrow> (\<lparr>Err = Some (DriverError m), Doc = None\<rparr>, w1)
       | None \<Rightarrow>
           (case find (drv_matches drv filter') (store w1 (db, col)) of
              None \<Rightarrow> (\<lparr>Err = Some ErrNoDocuments, Doc = None\<rparr>, w1)
            | Some d \<Rightarrow>
                (\<lparr>Err = None,
                  Doc = Some (case ReturnDocumentOpt opts of
                                Some After \<Rightarrow> drv_apply drv update d
                              | _ \<Rightarrow> d)\<rparr>,
                 w1\<lparr>store := (store w1)
                    ((db, col) := updateFirst (drv_matches drv filter') (drv_apply drv update)
                                    (store w1 (db, col)))\<rparr>))))"

section \<open>Connection factory and document client\<close>

text \<open>\<^verbatim>\<open>type Client struct { client *mongo.Client }\<close>\<close>

record Client =
  client :: session

text \<open>\<^verbatim>\<open>NewClient\<close>: \<open>None\<close> is the \<^verbatim>\<open>nil\<close> handle.\<close>

definition NewClient :: "Driver \<Rightarrow> string \<Rightarrow> World \<Rightarrow> Client option \<times> World" where
  "NewClient drv connURI w =
     (let w1 = log_Print ''start creating new client'' w;
          (r, w2) = mongo_Connect drv connURI w1
      in (case r of
            Inl err \<Rightarrow>
              (None, log_Printf ''Error while establishing a connection to MongoDB: %v'' err w2)
          | Inr cl \<Rightarrow>
              (Some \<lparr>client = cl\<rparr>, log_Print ''created new client'' w2)))"

text \<open>\<^verbatim>\<open>UpdateOne\<close>: the update document \<open>data\<close> goes to the driver as it is.\<close>

definition UpdateOne ::
  "Driver \<Rightarrow> Client \<Rightarrow> string \<Rightarrow> string \<Rightarrow> bson \<Rightarrow> document \<Rightarrow> World \<Rightarrow> error option \<times> World" where
  "UpdateOne drv c database collection filter' data w =
     (let (err, w1) = Collection_UpdateOne drv (client c) database collection filter' (BDoc data) w
      in (case err of
            Some e \<Rightarrow> (Some e, log_Printf ''Error while updating the document: %v'' e w1)
          | None \<Rightarrow> (None, w1)))"

text \<open>\<^verbatim>\<open>UpdateMany\<close>: \<^verbatim>\<open>update := bson.D{{"$set", data}}\<close> goes to the driver.\<close>

definition UpdateMany ::
  "Driver \<Rightarrow> Client \<Rightarrow> string \<Rightarrow> string \<Rightarrow> bson \<Rightarrow> document \<Rightarrow> World \<Rightarrow> error option \<times> World" where
  "UpdateMany drv c database collection filter' data w =
     (let update = BDoc [(''$set'', BDoc data)];
          (err, w1) = Collection_UpdateMany drv (client c) database collection filter' update w
      in (case err of
            Some e \<Rightarrow> (Some e, log_Printf ''Error while updating the documents: %v'' e w1)
          | None \<Rightarrow> (None, w1)))"

text \<open>
  \<^verbatim>\<open>FindOneAndUpdate\<close>: the options ask for the document after the update; the result
  handle of the driver is returned unless it holds an error.
\<close>

definition FindOneAndUpdate ::
  "Driver \<Rightarrow> Client \<Rightarrow> string \<Rightarrow> string \<Rightarrow> bson \<Rightarrow> bson \<Rightarrow> World \<Rightarrow> (error + SingleResult) \<times> World" where
  "FindOneAndUpdate drv c database collection filter' update w =
     (let opts = SetReturnDocument After FindOneAndUpdate_options;
          (result, w1) = Collection_FindOneAndUpdate drv (client c) database collection filter'
                           update opts w
      in (case Err result of
            Some e \<Rightarrow>
              (Inl e, log_Printf ''Error while finding and updating document: %v'' e w1)
          | None \<Rightarrow> (Inr result, w1)))"

section \<open>What the specification calls a valid string and its canonical form\<close>

text \<open>A hex digit of either case.\<close>

definition specHexDigit :: "char \<Rightarrow> bool" where
  "specHexDigit c = (c \<in> set ''0123456789abcdefABCDEF'')"

text \<open>The undashed layout: 32 hex digits.\<close>

definition specUndashed :: "string \<Rightarrow> bool" where
  "specUndashed s = (length s = 32 \<and> list_all specHexDigit s)"

text \<open>The dashed layout: 36 characters, hex digits grouped 8-4-4-4-12 by four dashes.\<close>

definition specDashed :: "string \<Rightarrow> bool" where
  "specDashed s =
     (length s = 36 \<and>
      list_all specHexDigit (take 8 s) \<and> take 1 (drop 8 s) = ''-'' \<and>
      list_all specHexDigit (take 4 (drop 9 s)) \<and> take 1 (drop 13 s) = ''-'' \<and>
      list_all specHexDigit (take 4 (drop 14 s)) \<and> take 1 (drop 18 s) = ''-'' \<and>
      list_all specHexDigit (take 4 (drop 19 s)) \<and> take 1 (drop 23 s) = ''-'' \<and>
      list_all specHexDigit (drop 24 s))"

text \<open>Lower case of an ASCII letter; any other character stays.\<close>

definition lower :: "char \<Rightarrow> char" where
  "lower c =
     (let n = (of_char c :: nat) in if 65 \<le> n \<and> n \<le> 90 then char_of (n + 32) else c)"

text \<open>Dashes after 8, 12, 16 and 20 characters.\<close>

definition dashed :: "string \<Rightarrow> string" where
  "dashed h = take 8 h @ ''-'' @ take 4 (drop 8 h) @ ''-'' @ take 4 (drop 12 h) @ ''-''
              @ take 4 (drop 16 h) @ ''-'' @ drop 20 h"

text \<open>
  The canonical form of a string: its characters other than dashes, in lower case, with
  the dashes of the 8-4-4-4-12 grouping.
\<close>

definition canonicalForm :: "string \<Rightarrow> string" where
  "canonicalForm s = dashed (map lower (filter (\<lambda>c. c \<noteq> CHR ''-'') s))"

text \<open>
  The version and variant bits of a version-4 UUID (RFC 4122): the high nibble of byte 6
  is 4, the two high bits of byte 8 are 1 and 0.
\<close>

definition isVersion4 :: "byte list \<Rightarrow> bool" where
  "isVersion4 d = (length d = 16 \<and> (d ! 6) AND 0xf0 = 0x40 \<and> (d ! 8) AND 0xc0 = 0x80)"

text \<open>
  What the specification means by a connected handle: the handle is not \<^verbatim>\<open>nil\<close> and a
  server answers at the connection string it was made from.
\<close>

definition fullyConnected :: "Driver \<Rightarrow> string \<Rightarrow> Client option \<Rightarrow> bool" where
  "fullyConnected drv connURI h = (h \<noteq> None \<and> drv_reachable drv connURI)"

section \<open>A driver and a server for the examples\<close>

text \<open>
  One driver, used where a theorem is evaluated at a concrete input. A connection string
  is accepted when its scheme is \<^verbatim>\<open>mongodb://\<close>; the only server is at
  \<^verbatim>\<open>mongodb://localhost:27017\<close>. An update document must begin with an operator key. A
  filter selects the documents that hold each of its pairs, and \<^verbatim>\<open>$set\<close> replaces the
  fields it names.
\<close>

definition exampleDial :: "string \<Rightarrow> string + session" where
  "exampleDial u =
     (if take 10 u = ''mongodb://'' then Inr 7
      else Inl ''error parsing uri: scheme must be mongodb or mongodb+srv'')"

fun updateRejected :: "bson \<Rightarrow> string option" where
  "updateRejected (BDoc []) = Some ''update document must have at least one element''"
| "updateRejected (BDoc ((k, v) # kvs)) =
     (if take 1 k = ''$'' then None
      else Some ''update document must contain key beginning with $'')"
| "updateRejected u = None"

fun exampleFault :: "driver_call \<Rightarrow> string option" where
  "exampleFault (CallConnect u) = None"
| "exampleFault (CallUpdateOne s db col f u) = updateRejected u"
| "exampleFault (CallUpdateMany s db col f u) = updateRejected u"
| "exampleFault (CallFindOneAndUpdate s db col f u opts) = updateRejected u"

fun exampleMatches :: "bson \<Rightarrow> document \<Rightarrow> bool" where
  "exampleMatches (BDoc fs) d = list_all (\<lambda>kv. kv \<in> set d) fs"
| "exampleMatches f d = False"

fun exampleApply :: "bson \<Rightarrow> document \<Rightarrow> document" where
  "exampleApply (BDoc [(k, BDoc us)]) d =
     (if k = ''$set'' then filter (\<lambda>kv. fst kv \<notin> fst ` set us) d @ us else d)"
| "exampleApply u d = d"

definition exampleDriver :: Driver where
  "exampleDriver =
     \<lparr>drv_dial = exampleDial, drv_fault = exampleFault, drv_matches = exampleMatches,
      drv_apply = exampleApply, drv_reachable = \<lambda>u. u = ''mongodb://localhost:27017''\<rparr>"

definition exampleWorld :: World where
  "exampleWorld =
     \<lparr>store = (\<lambda>ns. if ns = (''testdb'', ''testcollection'')
                     then [[(''k'', BInt 1)], [(''k'', BInt 2)]] else []),
      calls = [], logs = []\<rparr>"

section \<open>Hex encoding and decoding\<close>

text \<open>
  A byte is its two nibbles; every nibble is below 16 and indexes \<open>hextable\<close> within its
  16 characters; decoding the two characters of a byte gives the byte back.
\<close>

lemma length_EncodeToString: "length (EncodeToString bs) = 2 * length bs"
  by (induction bs) (simp_all add: EncodeToString_def encodeByte_def)

lemma take_bit_4_lt16: "(b::byte) < 16 \<Longrightarrow> take_bit 4 b = b"
  using less_mask_eq [of b 4] by (simp add: take_bit_eq_mask)

lemma fifteen_mask: "(0x0f::byte) = mask 4"
  by (simp add: mask_eq_exp_minus_1)

lemma nibbles_join: "push_bit 4 (drop_bit 4 v) OR (v AND 0x0f) = (v::byte)"
  unfolding fifteen_mask by (rule bit_word_eqI) (auto simp: bit_simps)

lemma unat_hi_nibble: "unat (drop_bit 4 (v::byte)) < 16"
proof -
  have "unat (drop_bit 4 v) = unat v div 16" by (simp add: unat_drop_bit_eq drop_bit_eq_div unat_div)
  moreover have "unat v < 256" using unsigned_less [of v, where ?'a = nat] by simp
  ultimately show ?thesis by simp
qed

lemma unat_lo_nibble: "unat ((v::byte) AND 0x0f) < 16"
proof -
  have "unat (v AND 0x0f) \<le> unat (0x0f :: byte)"
    by (rule word_and_le1 [THEN word_le_nat_alt [THEN iffD1]])
  then show ?thesis by simp
qed

lemma lt16_cases:
  "(n::nat) < 16 \<Longrightarrow> n \<in> {0, 1, 2, 3, 4, 5, 6, 7, 8, 9, 10, 11, 12, 13, 14, 15}"
  by simp arith

lemma fromHexChar_hextable: "n < 16 \<Longrightarrow> fromHexChar (hextable ! n) = Some (of_nat n)"
  by (drule lt16_cases) (auto simp: fromHexChar_def hextable_def)

lemma isHexDigit_hextable: "n < 16 \<Longrightarrow> isHexDigit (hextable ! n)"
  by (drule lt16_cases) (auto simp: isHexDigit_def hextable_def)

lemma DecodeString_encodeByte:
  "DecodeString (encodeByte v @ rest) =
     (case DecodeString rest of Inl e \<Rightarrow> Inl e | Inr bs \<Rightarrow> Inr (v # bs))"
  by (simp add: encodeByte_def fromHexChar_hextable unat_hi_nibble unat_lo_nibble nibbles_join
       split: sum.splits)

lemma DecodeString_EncodeToString: "DecodeString (EncodeToString bs) = Inr bs"
proof (induction bs)
  case Nil
  show ?case by (simp add: EncodeToString_def)
next
  case (Cons v bs)
  have "EncodeToString (v # bs) = encodeByte v @ EncodeToString bs"
    by (simp add: EncodeToString_def)
  with Cons show ?case by (simp add: DecodeString_encodeByte)
qed

lemma hex_EncodeToString: "list_all isHexDigit (EncodeToString bs)"
  by (induction bs)
    (simp_all add: EncodeToString_def encodeByte_def isHexDigit_hextable unat_hi_nibble unat_lo_nibble)

text \<open>
  The character class of the pattern holds the 22 hex digits and nothing else. Each of
  them decodes to a nibble whose character in \<open>hextable\<close> is its lower case, so that
  decoding an even number of hex digits succeeds, and encoding the bytes again gives
  the digits in lower case.
\<close>

lemma char_of_nat_eq_iff: "c = char_of (n::nat) \<longleftrightarrow> n mod 256 = of_char c"
  by (metis char_of_char char_of_mod_256 of_char_of)

lemma of_char_nat_eqD: "(of_char c :: nat) = n \<Longrightarrow> c = char_of n"
  by auto

lemma isHexDigit_cases:
  assumes "isHexDigit c"
  shows "c \<in> set ''0123456789abcdefABCDEF''"
proof -
  let ?n = "of_char c :: nat"
  from assms have "(48 \<le> ?n \<and> ?n \<le> 57) \<or> (97 \<le> ?n \<and> ?n \<le> 102) \<or> (65 \<le> ?n \<and> ?n \<le> 70)"
    by (simp add: isHexDigit_def Let_def)
  then have "?n \<in> {48, 49, 50, 51, 52, 53, 54, 55, 56, 57, 97, 98, 99, 100, 101, 102,
                    65, 66, 67, 68, 69, 70}"
    by simp arith
  then show ?thesis
    by (auto dest!: of_char_nat_eqD simp: char_of_eq_iff)
qed

lemma isHexDigit_not_dash: "isHexDigit c \<Longrightarrow> c \<noteq> CHR ''-''"
  by (auto simp: isHexDigit_def)

lemma fromHexChar_isHexDigit:
  assumes "isHexDigit c"
  shows "\<exists>x. fromHexChar c = Some x \<and> x < 16 \<and> hextable ! unat x = lower c"
  using isHexDigit_cases [OF assms]
  by (auto simp: fromHexChar_def hextable_def lower_def char_of_nat_eq_iff)

lemma encodeByte_join:
  assumes "a < 16" "b < 16"
  shows "encodeByte (push_bit 4 a OR b) = [hextable ! unat a, hextable ! unat b]"
proof -
  have "drop_bit 4 (push_bit 4 (take_bit 4 a) OR take_bit 4 b) = take_bit 4 a"
    by (rule bit_word_eqI) (auto simp: bit_simps)
  moreover have "(push_bit 4 (take_bit 4 a) OR take_bit 4 b) AND mask 4 = take_bit 4 b"
    by (rule bit_word_eqI) (auto simp: bit_simps)
  ultimately show ?thesis
    using assms by (simp add: encodeByte_def take_bit_4_lt16 fifteen_mask)
qed

lemma DecodeString_hex:
  "list_all isHexDigit s \<Longrightarrow> even (length s) \<Longrightarrow>
     \<exists>bs. DecodeString s = Inr bs \<and> EncodeToString bs = map lower s \<and> 2 * length bs = length s"
proof (induction s rule: DecodeString.induct)
  case 1
  show ?case by (simp add: EncodeToString_def)
next
  case (2 q)
  then show ?case by simp
next
  case (3 p q rest)
  from 3 obtain bs where bs: "DecodeString rest = Inr bs" "EncodeToString bs = map lower rest"
      "2 * length bs = length rest"
    using fromHexChar_isHexDigit [of p] fromHexChar_isHexDigit [of q] by auto
  from 3 obtain a where a: "fromHexChar p = Some a" "a < 16" "hextable ! unat a = lower p"
    using fromHexChar_isHexDigit [of p] by auto
  from 3 obtain b where b: "fromHexChar q = Some b" "b < 16" "hextable ! unat b = lower q"
    using fromHexChar_isHexDigit [of q] by auto
  have "EncodeToString ((push_bit 4 a OR b) # bs) = lower p # lower q # map lower rest"
    using a b bs by (simp add: EncodeToString_def encodeByte_join)
  then show ?case using a b bs by simp
qed

section \<open>The pattern of \<^verbatim>\<open>ConvertStringToUuid\<close>\<close>

text \<open>
  The strings the matcher accepts are those the pattern denotes: five groups of 8, 4, 4, 4
  and 12 hex digits, each boundary between two groups holding one dash or nothing
  (\<open>FindStringSubmatch_Some\<close> and \<open>FindStringSubmatch_layout\<close> are the two directions),
  and the groups returned are those five.
\<close>

lemma hexGroup_Some:
  "hexGroup n s = Some (g, r) \<Longrightarrow> s = g @ r \<and> length g = n \<and> list_all isHexDigit g"
proof (induction n s arbitrary: g rule: hexGroup.induct)
  case (1 s)
  then show ?case by simp
next
  case (2 n)
  then show ?case by simp
next
  case (3 n c s)
  then show ?case by (auto split: if_splits option.splits)
qed

lemma hexGroup_append:
  "length g = n \<Longrightarrow> list_all isHexDigit g \<Longrightarrow> hexGroup n (g @ r) = Some (g, r)"
proof (induction g arbitrary: n)
  case Nil
  then show ?case by simp
next
  case (Cons c g)
  then obtain m where "n = Suc m" "length g = m" by (cases n) auto
  with Cons show ?case by simp
qed

lemma optDash_cases: "optDash r = r \<and> (\<forall>t. r \<noteq> CHR ''-'' # t) \<or> r = CHR ''-'' # optDash r"
  by (cases r) auto

lemma hexGroup_optDash_Some:
  assumes "hexGroup n (optDash x) = Some (g, r)"
  shows "\<exists>d. (d = [] \<or> d = ''-'') \<and> x = d @ g @ r \<and> length g = n \<and> list_all isHexDigit g"
proof -
  from hexGroup_Some [OF assms] have g: "optDash x = g @ r" "length g = n" "list_all isHexDigit g"
    by simp_all
  from optDash_cases [of x] show ?thesis
  proof
    assume "optDash x = x \<and> (\<forall>t. x \<noteq> CHR ''-'' # t)"
    with g have "x = [] @ g @ r" by simp
    with g show ?thesis by blast
  next
    assume "x = CHR ''-'' # optDash x"
    with g have "x = ''-'' @ g @ r" by simp
    with g show ?thesis by blast
  qed
qed

lemma hexGroup_optDash_append:
  assumes "d = [] \<or> d = ''-''" "length g = n" "0 < n" "list_all isHexDigit g"
  shows "hexGroup n (optDash (d @ g @ r)) = Some (g, r)"
proof -
  from assms obtain c g' where c: "g = c # g'" "isHexDigit c" by (cases g) auto
  with assms(1) have "optDash (d @ g @ r) = g @ r"
    by (auto simp: isHexDigit_not_dash)
  with assms show ?thesis by (simp add: hexGroup_append)
qed

lemma FindStringSubmatch_Some:
  assumes "FindStringSubmatch s = Some ms"
  shows "\<exists>g1 g2 g3 g4 g5 d1 d2 d3 d4.
           ms = [s, g1, g2, g3, g4, g5] \<and> s = g1 @ d1 @ g2 @ d2 @ g3 @ d3 @ g4 @ d4 @ g5 \<and>
           length g1 = 8 \<and> length g2 = 4 \<and> length g3 = 4 \<and> length g4 = 4 \<and> length g5 = 12 \<and>
           list_all isHexDigit g1 \<and> list_all isHexDigit g2 \<and> list_all isHexDigit g3 \<and>
           list_all isHexDigit g4 \<and> list_all isHexDigit g5 \<and>
           (d1 = [] \<or> d1 = ''-'') \<and> (d2 = [] \<or> d2 = ''-'') \<and> (d3 = [] \<or> d3 = ''-'') \<and>
           (d4 = [] \<or> d4 = ''-'')"
proof -
  from assms obtain g1 r1 where 1: "hexGroup 8 s = Some (g1, r1)"
    by (auto simp: FindStringSubmatch_def split: option.splits)
  with assms obtain g2 r2 where 2: "hexGroup 4 (optDash r1) = Some (g2, r2)"
    by (auto simp: FindStringSubmatch_def split: option.splits)
  with 1 assms obtain g3 r3 where 3: "hexGroup 4 (optDash r2) = Some (g3, r3)"
    by (auto simp: FindStringSubmatch_def split: option.splits)
  with 1 2 assms obtain g4 r4 where 4: "hexGroup 4 (optDash r3) = Some (g4, r4)"
    by (auto simp: FindStringSubmatch_def split: option.splits)
  with 1 2 3 assms obtain g5 r5 where 5: "hexGroup 12 (optDash r4) = Some (g5, r5)"
    by (auto simp: FindStringSubmatch_def split: option.splits)
  with 1 2 3 4 assms have r5: "r5 = []" and ms: "ms = [s, g1, g2, g3, g4, g5]"
    by (auto simp: FindStringSubmatch_def split: if_splits)
  from hexGroup_Some [OF 1] have s1: "s = g1 @ r1" "length g1 = 8" "list_all isHexDigit g1"
    by simp_all
  from hexGroup_optDash_Some [OF 2] obtain d1 where
    s2: "d1 = [] \<or> d1 = ''-''" "r1 = d1 @ g2 @ r2" "length g2 = 4" "list_all isHexDigit g2"
    by blast
  from hexGroup_optDash_Some [OF 3] obtain d2 where
    s3: "d2 = [] \<or> d2 = ''-''" "r2 = d2 @ g3 @ r3" "length g3 = 4" "list_all isHexDigit g3"
    by blast
  from hexGroup_optDash_Some [OF 4] obtain d3 where
    s4: "d3 = [] \<or> d3 = ''-''" "r3 = d3 @ g4 @ r4" "length g4 = 4" "list_all isHexDigit g4"
    by blast
  from hexGroup_optDash_Some [OF 5] obtain d4 where
    s5: "d4 = [] \<or> d4 = ''-''" "r4 = d4 @ g5 @ r5" "length g5 = 12" "list_all isHexDigit g5"
    by blast
  have "s = g1 @ d1 @ g2 @ d2 @ g3 @ d3 @ g4 @ d4 @ g5"
    using s1(1) s2(2) s3(2) s4(2) s5(2) r5 by simp
  with ms s1 s2 s3 s4 s5 show ?thesis by blast
qed

lemma FindStringSubmatch_layout:
  assumes "length g1 = 8" "length g2 = 4" "length g3 = 4" "length g4 = 4" "length g5 = 12"
    and "list_all isHexDigit g1" "list_all isHexDigit g2" "list_all isHexDigit g3"
      "list_all isHexDigit g4" "list_all isHexDigit g5"
    and "d1 = [] \<or> d1 = ''-''" "d2 = [] \<or> d2 = ''-''" "d3 = [] \<or> d3 = ''-''" "d4 = [] \<or> d4 = ''-''"
  shows "FindStringSubmatch (g1 @ d1 @ g2 @ d2 @ g3 @ d3 @ g4 @ d4 @ g5) =
           Some [g1 @ d1 @ g2 @ d2 @ g3 @ d3 @ g4 @ d4 @ g5, g1, g2, g3, g4, g5]"
proof -
  have 1: "hexGroup 8 (g1 @ d1 @ g2 @ d2 @ g3 @ d3 @ g4 @ d4 @ g5) =
             Some (g1, d1 @ g2 @ d2 @ g3 @ d3 @ g4 @ d4 @ g5)"
    using assms by (simp add: hexGroup_append)
  have 2: "hexGroup 4 (optDash (d1 @ g2 @ d2 @ g3 @ d3 @ g4 @ d4 @ g5)) =
             Some (g2, d2 @ g3 @ d3 @ g4 @ d4 @ g5)"
    using assms by (intro hexGroup_optDash_append) simp_all
  have 3: "hexGroup 4 (optDash (d2 @ g3 @ d3 @ g4 @ d4 @ g5)) = Some (g3, d3 @ g4 @ d4 @ g5)"
    using assms by (intro hexGroup_optDash_append) simp_all
  have 4: "hexGroup 4 (optDash (d3 @ g4 @ d4 @ g5)) = Some (g4, d4 @ g5)"
    using assms by (intro hexGroup_optDash_append) simp_all
  have 5: "hexGroup 12 (optDash (d4 @ g5 @ [])) = Some (g5, [])"
    using assms by (intro hexGroup_optDash_append) simp_all
  show ?thesis
    unfolding FindStringSubmatch_def using 5 by (simp only: 1 2 3 4 option.case prod.case) simp
qed

section \<open>The identifier codec\<close>

text \<open>
  On a payload of 16 bytes under subtype 4, \<^verbatim>\<open>ConvertUuidToString\<close> returns the 32 hex
  digits of the payload with the four dashes. On a string the pattern accepts,
  \<^verbatim>\<open>ConvertStringToUuid\<close> decodes the string without its dashes into 16 bytes, whose hex
  digits are the lower case of those of the string.
\<close>

lemma isHexDigit_iff_spec: "isHexDigit c \<longleftrightarrow> specHexDigit c"
proof
  assume "isHexDigit c"
  then show "specHexDigit c" unfolding specHexDigit_def by (rule isHexDigit_cases)
next
  assume "specHexDigit c"
  then show "isHexDigit c" by (auto simp: specHexDigit_def isHexDigit_def)
qed

lemma list_all_spec: "list_all specHexDigit s = list_all isHexDigit s"
  by (simp add: isHexDigit_iff_spec [abs_def])

lemma filter_dash_hex: "list_all isHexDigit g \<Longrightarrow> filter (\<lambda>c. c \<noteq> CHR ''-'') g = g"
  by (induction g) (auto simp: isHexDigit_not_dash)

lemma ConvertUuidToString_dashed:
  assumes "Subtype b = 4" "length (Data b) = 16"
  shows "ConvertUuidToString b = Inr (dashed (EncodeToString (Data b)))"
  using assms by (simp add: ConvertUuidToString_def slice_def dashed_def length_EncodeToString Let_def)

lemma FindStringSubmatch_dashed:
  assumes "length h = 32" "list_all isHexDigit h"
  shows "FindStringSubmatch (dashed h) =
           Some [dashed h, take 8 h, take 4 (drop 8 h), take 4 (drop 12 h), take 4 (drop 16 h),
                 drop 20 h]"
proof -
  have a: "list_all isHexDigit (take n h)" "list_all isHexDigit (drop n h)"
       "list_all isHexDigit (take n (drop m h))" for n m
    using assms(2) by (auto simp: list_all_iff dest: in_set_takeD in_set_dropD)
  show ?thesis
    unfolding dashed_def
    by (rule FindStringSubmatch_layout) (simp_all add: assms(1) a)
qed

lemma concat_groups: 
  assumes "length h = 32"
  shows "take 8 h @ take 4 (drop 8 h) @ take 4 (drop 12 h) @ take 4 (drop 16 h) @ drop 20 h = h"
proof -
  have "take 4 (drop 16 h) @ drop 20 h = drop 16 h"
    using append_take_drop_id [of 4 "drop 16 h"] by simp
  moreover have "take 4 (drop 12 h) @ drop 16 h = drop 12 h"
    using append_take_drop_id [of 4 "drop 12 h"] by simp
  moreover have "take 4 (drop 8 h) @ drop 12 h = drop 8 h"
    using append_take_drop_id [of 4 "drop 8 h"] by simp
  ultimately show ?thesis by simp
qed

lemma accepted_canonical:
  assumes "FindStringSubmatch s = Some ms"
  shows "\<exists>bs. DecodeString (concat (drop 1 ms)) = Inr bs \<and> length bs = 16 \<and>
               length (concat (drop 1 ms)) = 32 \<and> list_all isHexDigit (concat (drop 1 ms)) \<and>
               concat (drop 1 ms) = filter (\<lambda>c. c \<noteq> CHR ''-'') s \<and>
               dashed (EncodeToString bs) = canonicalForm s"
proof -
  from FindStringSubmatch_Some [OF assms] obtain g1 g2 g3 g4 g5 d1 d2 d3 d4 where
    ms: "ms = [s, g1, g2, g3, g4, g5]" and s: "s = g1 @ d1 @ g2 @ d2 @ g3 @ d3 @ g4 @ d4 @ g5"
    and len: "length g1 = 8" "length g2 = 4" "length g3 = 4" "length g4 = 4" "length g5 = 12"
    and hex: "list_all isHexDigit g1" "list_all isHexDigit g2" "list_all isHexDigit g3"
       "list_all isHexDigit g4" "list_all isHexDigit g5"
    and d: "d1 = [] \<or> d1 = ''-''" "d2 = [] \<or> d2 = ''-''" "d3 = [] \<or> d3 = ''-''" "d4 = [] \<or> d4 = ''-''"
    by blast
  let ?h = "g1 @ g2 @ g3 @ g4 @ g5"
  have c: "concat (drop 1 ms) = ?h" by (simp add: ms)
  have l: "length ?h = 32" using len by simp
  have x: "list_all isHexDigit ?h" using hex by simp
  have fd: "filter (\<lambda>c. c \<noteq> CHR ''-'') d = []" if "d = [] \<or> d = ''-''" for d
    using that by auto
  have f: "filter (\<lambda>c. c \<noteq> CHR ''-'') s = ?h"
    unfolding s by (simp add: filter_dash_hex hex fd d)
  have "even (length ?h)" by (simp only: l) simp
  from DecodeString_hex [OF x this] obtain bs where
    bs: "DecodeString ?h = Inr bs" "EncodeToString bs = map lower ?h" "2 * length bs = length ?h"
    by blast
  have "length bs = 16" using bs(3) l by simp
  moreover have "dashed (EncodeToString bs) = canonicalForm s"
    by (simp only: canonicalForm_def f bs(2))
  ultimately show ?thesis using bs(1) l x f by (simp only: c) simp
qed

section \<open>Round trip of an identifier\<close>

text \<open>
  Claim C1. For every identifier \<open>x\<close> with subtype 4 and a payload of 16 bytes,
  \<^verbatim>\<open>ConvertUuidToString\<close> succeeds on \<open>x\<close>, and \<^verbatim>\<open>ConvertStringToUuid\<close> succeeds on the string
  it returns and gives back \<open>x\<close> itself: subtype 4 and the same 16 bytes.
\<close>

theorem uuid_roundtrip:
  assumes "Subtype x = 4" "length (Data x) = 16"
  shows "\<exists>s. ConvertUuidToString x = Inr s \<and> ConvertStringToUuid s = Inr x"
proof -
  let ?h = "EncodeToString (Data x)"
  have len: "length ?h = 32" using assms by (simp add: length_EncodeToString)
  have "FindStringSubmatch (dashed ?h) =
           Some [dashed ?h, take 8 ?h, take 4 (drop 8 ?h), take 4 (drop 12 ?h), take 4 (drop 16 ?h),
                 drop 20 ?h]"
    using len hex_EncodeToString by (rule FindStringSubmatch_dashed)
  then have "ConvertStringToUuid (dashed ?h) = Inr \<lparr>Subtype = 4, Data = Data x\<rparr>"
    by (simp add: ConvertStringToUuid_def concat_groups [OF len] DecodeString_EncodeToString)
  moreover have "\<lparr>Subtype = 4, Data = Data x\<rparr> = x" using assms(1) by simp
  ultimately show ?thesis
    using ConvertUuidToString_dashed [OF assms] by simp
qed

theorem uuid_roundtrip_witness:
  "Subtype \<lparr>Subtype = 4, Data = [222, 233, 6, 178, 165, 98, 72, 70, 137, 169, 104, 67, 168, 227, 213, 162]\<rparr> = 4
   \<and> length (Data \<lparr>Subtype = 4, Data = [222, 233, 6, 178, 165, 98, 72, 70, 137, 169, 104, 67, 168, 227, 213, 162]\<rparr>) = 16
   \<and> (\<exists>s. ConvertUuidToString \<lparr>Subtype = 4, Data = [222, 233, 6, 178, 165, 98, 72, 70, 137, 169, 104, 67, 168, 227, 213, 162]\<rparr> = Inr s
        \<and> ConvertStringToUuid s = Inr \<lparr>Subtype = 4, Data = [222, 233, 6, 178, 165, 98, 72, 70, 137, 169, 104, 67, 168, 227, 213, 162]\<rparr>)"
  using uuid_roundtrip [of "\<lparr>Subtype = 4, Data = [222, 233, 6, 178, 165, 98, 72, 70, 137, 169, 104, 67, 168, 227, 213, 162]\<rparr>"]
  by simp

section \<open>Normalisation of a valid string\<close>

lemma specUndashed_accepted:
  assumes "specUndashed s"
  shows "FindStringSubmatch s \<noteq> None"
proof -
  from assms have len: "length s = 32" and hex: "list_all isHexDigit s"
    by (simp_all add: specUndashed_def list_all_spec)
  have a: "list_all isHexDigit (take n s)" "list_all isHexDigit (drop n s)"
       "list_all isHexDigit (take n (drop m s))" for n m
    using hex by (auto simp: list_all_iff dest: in_set_takeD in_set_dropD)
  have "FindStringSubmatch (take 8 s @ [] @ take 4 (drop 8 s) @ [] @ take 4 (drop 12 s) @ []
          @ take 4 (drop 16 s) @ [] @ drop 20 s) \<noteq> None"
    by (subst FindStringSubmatch_layout) (simp_all add: len a)
  then show ?thesis using concat_groups [OF len] by simp
qed

lemma specDashed_accepted:
  assumes "specDashed s"
  shows "FindStringSubmatch s \<noteq> None"
proof -
  let ?g1 = "take 8 s" and ?g2 = "take 4 (drop 9 s)" and ?g3 = "take 4 (drop 14 s)"
    and ?g4 = "take 4 (drop 19 s)" and ?g5 = "drop 24 s"
  from assms have len: "length s = 36"
    and hex: "list_all isHexDigit ?g1" "list_all isHexDigit ?g2" "list_all isHexDigit ?g3"
      "list_all isHexDigit ?g4" "list_all isHexDigit ?g5"
    and d: "take 1 (drop 8 s) = ''-''" "take 1 (drop 13 s) = ''-''" "take 1 (drop 18 s) = ''-''"
      "take 1 (drop 23 s) = ''-''"
    by (simp_all add: specDashed_def list_all_spec)
  have step: "drop n s = take k (drop n s) @ drop (n + k) s" for n k
    using append_take_drop_id [of k "drop n s"] by (simp add: add.commute)
  have "s = take 8 (drop 0 s) @ drop 8 s" using step [of 0 8] by simp
  also have "drop 8 s = ''-'' @ drop 9 s" using step [of 8 1] d by simp
  also have "drop 9 s = ?g2 @ drop 13 s" using step [of 9 4] by simp
  also have "drop 13 s = ''-'' @ drop 14 s" using step [of 13 1] d by simp
  also have "drop 14 s = ?g3 @ drop 18 s" using step [of 14 4] by simp
  also have "drop 18 s = ''-'' @ drop 19 s" using step [of 18 1] d by simp
  also have "drop 19 s = ?g4 @ drop 23 s" using step [of 19 4] by simp
  also have "drop 23 s = ''-'' @ drop 24 s" using step [of 23 1] d by simp
  finally have s: "s = ?g1 @ ''-'' @ ?g2 @ ''-'' @ ?g3 @ ''-'' @ ?g4 @ ''-'' @ ?g5"
    by simp
  have "FindStringSubmatch (?g1 @ ''-'' @ ?g2 @ ''-'' @ ?g3 @ ''-'' @ ?g4 @ ''-'' @ ?g5) \<noteq> None"
    by (subst FindStringSubmatch_layout) (simp_all add: len hex)
  with s show ?thesis by simp
qed

lemma accepted_normalised:
  assumes "FindStringSubmatch s \<noteq> None"
  shows "\<exists>b. ConvertStringToUuid s = Inr b \<and> ConvertUuidToString b = Inr (canonicalForm s)"
proof -
  from assms obtain ms where ms: "FindStringSubmatch s = Some ms" by auto
  from accepted_canonical [OF ms] obtain bs where
    bs: "DecodeString (concat (drop 1 ms)) = Inr bs" "length bs = 16"
      "dashed (EncodeToString bs) = canonicalForm s"
    by blast
  have "ConvertStringToUuid s = Inr \<lparr>Subtype = 4, Data = bs\<rparr>"
    using bs(1) by (simp add: ConvertStringToUuid_def ms)
  moreover have "ConvertUuidToString \<lparr>Subtype = 4, Data = bs\<rparr> = Inr (canonicalForm s)"
    using ConvertUuidToString_dashed [of "\<lparr>Subtype = 4, Data = bs\<rparr>"] bs by simp
  ultimately show ?thesis by blast
qed

text \<open>
  Claim C2. For every string in the dashed (36 characters) or the undashed (32
  characters) layout of hex digits, of either case, \<^verbatim>\<open>ConvertStringToUuid\<close> succeeds, and
  \<^verbatim>\<open>ConvertUuidToString\<close> on its result returns the canonical form of the string: its hex
  digits in lower case, with the four dashes.
\<close>

theorem string_normalised:
  assumes "specDashed s \<or> specUndashed s"
  shows "\<exists>b. ConvertStringToUuid s = Inr b \<and> ConvertUuidToString b = Inr (canonicalForm s)"
  using assms specDashed_accepted specUndashed_accepted accepted_normalised by blast

theorem string_normalised_witness:
  "(specDashed ''DEE906B2-a562-4846-89A9-6843A8E3D5A2'' \<or> specUndashed ''DEE906B2-a562-4846-89A9-6843A8E3D5A2'')
   \<and> (\<exists>b. ConvertStringToUuid ''DEE906B2-a562-4846-89A9-6843A8E3D5A2'' = Inr b
          \<and> ConvertUuidToString b = Inr ''dee906b2-a562-4846-89a9-6843a8e3d5a2'')"
proof -
  have h: "specDashed ''DEE906B2-a562-4846-89A9-6843A8E3D5A2''"
    by (simp add: specDashed_def specHexDigit_def)
  have c: "canonicalForm ''DEE906B2-a562-4846-89A9-6843A8E3D5A2'' = ''dee906b2-a562-4846-89a9-6843a8e3d5a2''"
    by (simp add: canonicalForm_def dashed_def lower_def char_of_eq_iff)
  show ?thesis
    using h string_normalised [of "''DEE906B2-a562-4846-89A9-6843A8E3D5A2''"] 
    by (simp only: c) simp
qed

section \<open>What \<^verbatim>\<open>ConvertStringToUuid\<close> rejects and accepts\<close>

lemma rejected_FormatError:
  "FindStringSubmatch s = None \<Longrightarrow> ConvertStringToUuid s = Inl (FormatError s)"
  by (simp add: ConvertStringToUuid_def)

lemma rejects_non_hex:
  assumes "c \<in> set s" "\<not> isHexDigit c" "c \<noteq> CHR ''-''"
  shows "ConvertStringToUuid s = Inl (FormatError s)"
proof (rule rejected_FormatError, rule ccontr)
  assume "FindStringSubmatch s \<noteq> None"
  then obtain ms where ms: "FindStringSubmatch s = Some ms" by auto
  from accepted_canonical [OF ms] have
    "list_all isHexDigit (filter (\<lambda>c. c \<noteq> CHR ''-'') s)" by auto
  with assms show False by (auto simp: list_all_iff)
qed

lemma rejects_wrong_digit_count:
  assumes "length (filter isHexDigit s) \<noteq> 32"
  shows "ConvertStringToUuid s = Inl (FormatError s)"
proof (rule rejected_FormatError, rule ccontr)
  assume "FindStringSubmatch s \<noteq> None"
  then obtain ms where ms: "FindStringSubmatch s = Some ms" by auto
  from accepted_canonical [OF ms] have
    a: "list_all isHexDigit (filter (\<lambda>c. c \<noteq> CHR ''-'') s)"
       "length (filter (\<lambda>c. c \<noteq> CHR ''-'') s) = 32" by auto
  have "filter isHexDigit s = filter (\<lambda>c. c \<noteq> CHR ''-'') s"
    using a(1) by (intro filter_cong) (auto simp: list_all_iff dest: isHexDigit_not_dash)
  with a(2) assms show False by simp
qed

lemma rejects_wrong_length:
  assumes "length s < 32 \<or> 36 < length s"
  shows "ConvertStringToUuid s = Inl (FormatError s)"
proof (rule rejected_FormatError, rule ccontr)
  assume "FindStringSubmatch s \<noteq> None"
  then obtain ms where ms: "FindStringSubmatch s = Some ms" by auto
  from FindStringSubmatch_Some [OF ms] have "32 \<le> length s \<and> length s \<le> 36"
    by auto
  with assms show False by simp
qed

text \<open>
  Claim C3. The claim is that \<^verbatim>\<open>ConvertStringToUuid\<close> fails with a format error on a wrong
  number of hex digits, on a character that is no hex digit, and on dashes at some but not
  all of the four group boundaries, so that only the 36-character and the 32-character
  layouts pass. The first two hold (\<open>rejects_wrong_digit_count\<close>, \<open>rejects_non_hex\<close>). The
  third does not: each \<^verbatim>\<open>-?\<close> of the pattern is optional by itself, and the string below,
  with three of the four dashes and 35 characters, is converted like the fully dashed
  one.
\<close>

theorem partial_dashes_accepted:
  "ConvertStringToUuid ''dee906b2a562-4846-89a9-6843a8e3d5a2'' =
     Inr \<lparr>Subtype = 4,
          Data = [222, 233, 6, 178, 165, 98, 72, 70, 137, 169, 104, 67, 168, 227, 213, 162]\<rparr>"
  by (simp add: ConvertStringToUuid_def FindStringSubmatch_def isHexDigit_def fromHexChar_def
        eval_nat_numeral)

section \<open>The decode step after a match\<close>

text \<open>
  Claim C5. When the pattern has matched, the groups joined without the dashes are exactly
  32 hex digits, \<^verbatim>\<open>hex.DecodeString\<close> succeeds on them, and \<^verbatim>\<open>ConvertStringToUuid\<close> does not
  return the decode error.
\<close>

theorem decode_cannot_fail:
  assumes "FindStringSubmatch s = Some ms"
  shows "length (concat (drop 1 ms)) = 32 \<and> list_all isHexDigit (concat (drop 1 ms)) \<and>
         (\<exists>bs. DecodeString (concat (drop 1 ms)) = Inr bs) \<and>
         (\<forall>e. ConvertStringToUuid s \<noteq> Inl (DecodeError e))"
proof -
  from accepted_canonical [OF assms] obtain bs where
    bs: "DecodeString (concat (drop 1 ms)) = Inr bs"
      "length (concat (drop 1 ms)) = 32" "list_all isHexDigit (concat (drop 1 ms))"
    by blast
  have "ConvertStringToUuid s = Inr \<lparr>Subtype = 4, Data = bs\<rparr>"
    using bs(1) by (simp add: ConvertStringToUuid_def assms)
  with bs show ?thesis by auto
qed

lemma FindStringSubmatch_example:
  "FindStringSubmatch ''dee906b2-a562-4846-89a9-6843a8e3d5a2'' =
     Some [''dee906b2-a562-4846-89a9-6843a8e3d5a2'', ''dee906b2'', ''a562'', ''4846'', ''89a9'',
           ''6843a8e3d5a2'']"
  by (simp add: FindStringSubmatch_def isHexDigit_def eval_nat_numeral)

theorem decode_cannot_fail_witness:
  "FindStringSubmatch ''dee906b2-a562-4846-89a9-6843a8e3d5a2'' =
     Some [''dee906b2-a562-4846-89a9-6843a8e3d5a2'', ''dee906b2'', ''a562'', ''4846'', ''89a9'',
           ''6843a8e3d5a2'']
   \<and> length ''dee906b2a562484689a96843a8e3d5a2'' = 32
   \<and> (\<exists>bs. DecodeString ''dee906b2a562484689a96843a8e3d5a2'' = Inr bs)
   \<and> (\<forall>e. ConvertStringToUuid ''dee906b2-a562-4846-89a9-6843a8e3d5a2'' \<noteq> Inl (DecodeError e))"
  using decode_cannot_fail [OF FindStringSubmatch_example] FindStringSubmatch_example
  by simp

section \<open>The cases of \<^verbatim>\<open>ConvertUuidToString\<close>\<close>

lemma lower_hextable: "n < 16 \<Longrightarrow> lower (hextable ! n) = hextable ! n"
  by (drule lt16_cases) (auto simp: lower_def hextable_def)

lemma lower_EncodeToString: "map lower (EncodeToString bs) = EncodeToString bs"
  by (induction bs)
    (simp_all add: EncodeToString_def encodeByte_def lower_hextable unat_hi_nibble unat_lo_nibble)

lemma lower_dash: "lower CHR ''-'' = CHR ''-''"
  by (simp add: lower_def)

lemma lower_dashed: "map lower h = h \<Longrightarrow> map lower (dashed h) = dashed h"
  by (simp add: dashed_def lower_dash take_map [symmetric] drop_map [symmetric])

lemma specDashed_dashed:
  assumes "length h = 32" "list_all isHexDigit h"
  shows "specDashed (dashed h)"
proof -
  have a: "list_all specHexDigit (take n h)" "list_all specHexDigit (drop n h)"
       "list_all specHexDigit (take n (drop m h))" for n m
    using assms(2)
    by (auto simp: list_all_iff isHexDigit_iff_spec [symmetric] dest: in_set_takeD in_set_dropD)
  show ?thesis
    by (simp add: specDashed_def dashed_def assms(1) a)
qed

lemma filter_dashed:
  assumes "length h = 32" "list_all isHexDigit h"
  shows "filter (\<lambda>c. c \<noteq> CHR ''-'') (dashed h) = h"
proof -
  have a: "list_all isHexDigit (take n h)" "list_all isHexDigit (drop n h)"
       "list_all isHexDigit (take n (drop m h))" for n m
    using assms(2) by (auto simp: list_all_iff dest: in_set_takeD in_set_dropD)
  have "filter (\<lambda>c. c \<noteq> CHR ''-'') (dashed h) =
          take 8 h @ take 4 (drop 8 h) @ take 4 (drop 12 h) @ take 4 (drop 16 h) @ drop 20 h"
    by (simp add: dashed_def filter_dash_hex a)
  then show ?thesis by (simp only: concat_groups [OF assms(1)])
qed

text \<open>
  Claim C4, as amended. \<^verbatim>\<open>ConvertUuidToString\<close> fails with the unsupported-subtype error
  for every input whose subtype is not 4; it fails with the invalid-length error for every
  input whose subtype is 4 and whose payload is not 16 bytes long; and for subtype 4 with
  a payload of 16 bytes it succeeds with a string in the dashed 8-4-4-4-12 layout, in lower
  case, whose hex digits decode to the payload.
\<close>

theorem uuid_to_string_cases:
  "(Subtype bin \<noteq> 4 \<longrightarrow> ConvertUuidToString bin = Inl (UnsupportedSubtypeError (Subtype bin))) \<and>
   (Subtype bin = 4 \<and> length (Data bin) \<noteq> 16 \<longrightarrow>
      ConvertUuidToString bin = Inl (InvalidLengthError (length (Data bin)))) \<and>
   (Subtype bin = 4 \<and> length (Data bin) = 16 \<longrightarrow>
      (\<exists>s. ConvertUuidToString bin = Inr s \<and> specDashed s \<and> map lower s = s \<and>
           DecodeString (filter (\<lambda>c. c \<noteq> CHR ''-'') s) = Inr (Data bin)))"
proof (intro conjI impI)
  assume "Subtype bin \<noteq> 4"
  then show "ConvertUuidToString bin = Inl (UnsupportedSubtypeError (Subtype bin))"
    by (simp add: ConvertUuidToString_def)
next
  assume "Subtype bin = 4 \<and> length (Data bin) \<noteq> 16"
  then show "ConvertUuidToString bin = Inl (InvalidLengthError (length (Data bin)))"
    by (simp add: ConvertUuidToString_def)
next
  assume a: "Subtype bin = 4 \<and> length (Data bin) = 16"
  let ?h = "EncodeToString (Data bin)"
  have len: "length ?h = 32" using a by (simp add: length_EncodeToString)
  have "ConvertUuidToString bin = Inr (dashed ?h)"
    using a by (simp add: ConvertUuidToString_dashed)
  moreover have "specDashed (dashed ?h)"
    using len hex_EncodeToString by (rule specDashed_dashed)
  moreover have "map lower (dashed ?h) = dashed ?h"
    by (rule lower_dashed) (rule lower_EncodeToString)
  moreover have "DecodeString (filter (\<lambda>c. c \<noteq> CHR ''-'') (dashed ?h)) = Inr (Data bin)"
    by (simp only: filter_dashed [OF len hex_EncodeToString] DecodeString_EncodeToString)
  ultimately show "\<exists>s. ConvertUuidToString bin = Inr s \<and> specDashed s \<and> map lower s = s \<and>
           DecodeString (filter (\<lambda>c. c \<noteq> CHR ''-'') s) = Inr (Data bin)"
    by blast
qed

theorem uuid_to_string_cases_witness:
  "ConvertUuidToString \<lparr>Subtype = 0, Data = [1, 2, 3]\<rparr> = Inl (UnsupportedSubtypeError 0) \<and>
   ConvertUuidToString \<lparr>Subtype = 4, Data = [1, 2, 3]\<rparr> = Inl (InvalidLengthError 3) \<and>
   (\<exists>s. ConvertUuidToString
          \<lparr>Subtype = 4,
            Data = [222, 233, 6, 178, 165, 98, 72, 70, 137, 169, 104, 67, 168, 227, 213, 162]\<rparr> = Inr s
        \<and> specDashed s \<and> map lower s = s
        \<and> DecodeString (filter (\<lambda>c. c \<noteq> CHR ''-'') s) =
            Inr [222, 233, 6, 178, 165, 98, 72, 70, 137, 169, 104, 67, 168, 227, 213, 162])"
  using uuid_to_string_cases [of "\<lparr>Subtype = 0, Data = [1, 2, 3]\<rparr>"]
    uuid_to_string_cases [of "\<lparr>Subtype = 4, Data = [1, 2, 3]\<rparr>"]
    uuid_to_string_cases [of "\<lparr>Subtype = 4,
            Data = [222, 233, 6, 178, 165, 98, 72, 70, 137, 169, 104, 67, 168, 227, 213, 162]\<rparr>"]
  by simp

text \<open>
  The claim as it was stated asks for the invalid-length error on every payload that is
  not 16 bytes long. The subtype is checked first: three bytes under subtype 0 give the
  unsupported-subtype error.
\<close>

theorem wrong_length_not_always_length_error:
  "length (Data \<lparr>Subtype = 0, Data = [1, 2, 3]\<rparr>) \<noteq> 16 \<and>
   ConvertUuidToString \<lparr>Subtype = 0, Data = [1, 2, 3]\<rparr> = Inl (UnsupportedSubtypeError 0)"
  by (simp add: ConvertUuidToString_def)

section \<open>\<^verbatim>\<open>GenerateUuid\<close>\<close>

text \<open>
  Claim C10. When the random source delivers, \<^verbatim>\<open>GenerateUuid\<close> returns subtype 4 with
  exactly the 16 bytes drawn, none of them changed; and there is a source for which the
  payload lacks the version and variant bits of a version-4 UUID.
\<close>

theorem GenerateUuid_raw_bytes:
  "(unavailable src = None \<longrightarrow>
      GenerateUuid src = Inr \<lparr>Subtype = 4, Data = map (stream src) [0..<16]\<rparr>) \<and>
   (\<exists>src'. unavailable src' = None \<and>
      (\<exists>b. GenerateUuid src' = Inr b \<and> \<not> isVersion4 (Data b)))"
proof
  show "unavailable src = None \<longrightarrow>
      GenerateUuid src = Inr \<lparr>Subtype = 4, Data = map (stream src) [0..<16]\<rparr>"
    by (simp add: GenerateUuid_def rand_Read_def)
next
  let ?z = "\<lparr>unavailable = None, stream = \<lambda>i. 0\<rparr>"
  have "GenerateUuid ?z = Inr \<lparr>Subtype = 4, Data = map (\<lambda>i. 0) [0..<16]\<rparr>"
    by (simp add: GenerateUuid_def rand_Read_def)
  moreover have "\<not> isVersion4 (map (\<lambda>i. 0) [0..<16])"
    by (simp add: isVersion4_def)
  ultimately show "\<exists>src'. unavailable src' = None \<and>
      (\<exists>b. GenerateUuid src' = Inr b \<and> \<not> isVersion4 (Data b))"
    by (intro exI [of _ ?z]) simp
qed

theorem GenerateUuid_raw_bytes_witness:
  "unavailable \<lparr>unavailable = None, stream = \<lambda>i. 255\<rparr> = None \<and>
   GenerateUuid \<lparr>unavailable = None, stream = \<lambda>i. 255\<rparr> = Inr \<lparr>Subtype = 4, Data = replicate 16 255\<rparr> \<and>
   \<not> isVersion4 (replicate 16 255)"
proof -
  have "map (\<lambda>i. 255 :: byte) [0..<16] = replicate 16 255"
    by (simp add: map_replicate_const)
  moreover have "\<not> isVersion4 (replicate 16 255)"
    by (simp add: isVersion4_def)
  ultimately show ?thesis
    using GenerateUuid_raw_bytes [of "\<lparr>unavailable = None, stream = \<lambda>i. 255\<rparr>"] by simp
qed

section \<open>The temporal codec\<close>

text \<open>
  \<^verbatim>\<open>ConvertStringToIsoDate\<close> adds nothing to the parser of the Go library: which strings are
  accepted, and with which instant, is what \<^verbatim>\<open>time.Parse\<close> decides for the layout
  \<^verbatim>\<open>time.RFC3339\<close>.
\<close>

lemma ConvertStringToIsoDate_passthrough:
  "ConvertStringToIsoDate parse date = parse RFC3339 date"
  by (simp add: ConvertStringToIsoDate_def split: sum.splits)

section \<open>The document client\<close>

lemma calls_log_Printf [simp]: "calls (log_Printf fmt e w) = calls w"
  by (simp add: log_Printf_def)

lemma calls_log_Print [simp]: "calls (log_Print m w) = calls w"
  by (simp add: log_Print_def)

lemma calls_Collection_UpdateOne:
  "calls (snd (Collection_UpdateOne drv s db col f u w)) = calls w @ [CallUpdateOne s db col f u]"
  by (simp add: Collection_UpdateOne_def issue_def Let_def split: option.splits)

lemma calls_Collection_UpdateMany:
  "calls (snd (Collection_UpdateMany drv s db col f u w)) = calls w @ [CallUpdateMany s db col f u]"
  by (simp add: Collection_UpdateMany_def issue_def Let_def split: option.splits)

text \<open>
  Claim C6. \<^verbatim>\<open>UpdateMany\<close> issues one call to the driver, \<^verbatim>\<open>UpdateMany\<close> on the collection,
  whose update argument is the caller's document under the single key \<^verbatim>\<open>"$set"\<close>, for every
  filter and document; \<^verbatim>\<open>UpdateOne\<close> issues one call whose update argument is the caller's
  document itself.
\<close>

theorem UpdateMany_wraps_set:
  "calls (snd (UpdateMany drv c db col f data w)) =
     calls w @ [CallUpdateMany (client c) db col f (BDoc [(''$set'', BDoc data)])] \<and>
   calls (snd (UpdateOne drv c db col f data w)) =
     calls w @ [CallUpdateOne (client c) db col f (BDoc data)]"
proof
  show "calls (snd (UpdateMany drv c db col f data w)) =
     calls w @ [CallUpdateMany (client c) db col f (BDoc [(''$set'', BDoc data)])]"
    using calls_Collection_UpdateMany [of drv "client c" db col f "BDoc [(''$set'', BDoc data)]" w]
    by (auto simp: UpdateMany_def Let_def split: prod.splits option.splits)
next
  show "calls (snd (UpdateOne drv c db col f data w)) =
     calls w @ [CallUpdateOne (client c) db col f (BDoc data)]"
    using calls_Collection_UpdateOne [of drv "client c" db col f "BDoc data" w]
    by (auto simp: UpdateOne_def Let_def split: prod.splits option.splits)
qed

theorem UpdateMany_wraps_set_witness:
  "calls (snd (UpdateMany
       \<lparr>drv_dial = \<lambda>u. Inr 0, drv_fault = \<lambda>c. None, drv_matches = \<lambda>f d. f = BDoc (take 1 d),
         drv_apply = \<lambda>u d. d, drv_reachable = \<lambda>u. True\<rparr>
       \<lparr>client = 0\<rparr> ''testdb'' ''testcollection'' (BDoc [(''locale'', BString ''en'')])
       [(''title'', BString ''t'')]
       \<lparr>store = \<lambda>ns. [], calls = [], logs = []\<rparr>)) =
     [CallUpdateMany 0 ''testdb'' ''testcollection'' (BDoc [(''locale'', BString ''en'')])
        (BDoc [(''$set'', BDoc [(''title'', BString ''t'')])])] \<and>
   calls (snd (UpdateOne
       \<lparr>drv_dial = \<lambda>u. Inr 0, drv_fault = \<lambda>c. None, drv_matches = \<lambda>f d. f = BDoc (take 1 d),
         drv_apply = \<lambda>u d. d, drv_reachable = \<lambda>u. True\<rparr>
       \<lparr>client = 0\<rparr> ''testdb'' ''testcollection'' (BDoc [(''locale'', BString ''en'')])
       [(''title'', BString ''t'')]
       \<lparr>store = \<lambda>ns. [], calls = [], logs = []\<rparr>)) =
     [CallUpdateOne 0 ''testdb'' ''testcollection'' (BDoc [(''locale'', BString ''en'')])
        (BDoc [(''title'', BString ''t'')])]"
  using UpdateMany_wraps_set [of
       "\<lparr>drv_dial = \<lambda>u. Inr 0, drv_fault = \<lambda>c. None, drv_matches = \<lambda>f d. f = BDoc (take 1 d),
         drv_apply = \<lambda>u d. d, drv_reachable = \<lambda>u. True\<rparr>"
       "\<lparr>client = 0\<rparr>" "''testdb''" "''testcollection''" "BDoc [(''locale'', BString ''en'')]"
       "[(''title'', BString ''t'')]"
       "\<lparr>store = \<lambda>ns. [], calls = [], logs = []\<rparr>"]
  by simp

text \<open>
  Claim C7, as amended. \<^verbatim>\<open>NewClient\<close> makes one call of \<^verbatim>\<open>mongo.Connect\<close> and returns when
  that call has returned. On every error of \<^verbatim>\<open>Connect\<close> the handle is \<^verbatim>\<open>nil\<close>, and the error
  goes to the log and nowhere else; otherwise the handle is not \<^verbatim>\<open>nil\<close> and wraps exactly
  the session \<^verbatim>\<open>Connect\<close> returned, so that a handle is \<^verbatim>\<open>nil\<close> or holds one session of the
  driver. Whether a server answers plays no part in the result, and the collections of
  the server are not touched.
\<close>

theorem NewClient_handle_or_nil:
  "calls (snd (NewClient drv connURI w)) = calls w @ [CallConnect connURI] \<and>
   store (snd (NewClient drv connURI w)) = store w \<and>
   (case drv_dial drv connURI of
      Inl m \<Rightarrow>
        fst (NewClient drv connURI w) = None \<and>
        logs (snd (NewClient drv connURI w)) =
          logs w @ [LogPrint ''start creating new client'',
                    LogPrintf ''Error while establishing a connection to MongoDB: %v''
                      (DriverError m)]
    | Inr s \<Rightarrow>
        fst (NewClient drv connURI w) = Some \<lparr>client = s\<rparr> \<and>
        logs (snd (NewClient drv connURI w)) =
          logs w @ [LogPrint ''start creating new client'', LogPrint ''created new client'']) \<and>
   NewClient (drv\<lparr>drv_reachable := r\<rparr>) connURI w = NewClient drv connURI w"
  by (simp add: NewClient_def mongo_Connect_def issue_def log_Print_def log_Printf_def Let_def
        split: sum.splits)

theorem NewClient_handle_or_nil_witness:
  "fst (NewClient exampleDriver ''mongodb://localhost:27017'' exampleWorld) =
     Some \<lparr>client = 7\<rparr> \<and>
   logs (snd (NewClient exampleDriver ''mongodb://localhost:27017'' exampleWorld)) =
     [LogPrint ''start creating new client'', LogPrint ''created new client''] \<and>
   fst (NewClient exampleDriver ''localhost:27017'' exampleWorld) = None \<and>
   logs (snd (NewClient exampleDriver ''localhost:27017'' exampleWorld)) =
     [LogPrint ''start creating new client'',
      LogPrintf ''Error while establishing a connection to MongoDB: %v''
        (DriverError ''error parsing uri: scheme must be mongodb or mongodb+srv'')] \<and>
   calls (snd (NewClient exampleDriver ''localhost:27017'' exampleWorld)) =
     [CallConnect ''localhost:27017'']"
  using NewClient_handle_or_nil [of exampleDriver "''mongodb://localhost:27017''" exampleWorld]
    NewClient_handle_or_nil [of exampleDriver "''localhost:27017''" exampleWorld]
  by (simp add: exampleDriver_def exampleDial_def exampleWorld_def)

text \<open>
  The claim as it was stated says that a handle is either fully connected or \<^verbatim>\<open>nil\<close>. At a
  well-formed connection string where no server answers, \<^verbatim>\<open>Connect\<close> returns a session and
  no error, and \<^verbatim>\<open>NewClient\<close> returns a handle that is neither.
\<close>

theorem NewClient_handle_not_connected:
  "fst (NewClient exampleDriver ''mongodb://nowhere:27017'' exampleWorld) = Some \<lparr>client = 7\<rparr> \<and>
   \<not> fullyConnected exampleDriver ''mongodb://nowhere:27017''
       (fst (NewClient exampleDriver ''mongodb://nowhere:27017'' exampleWorld))"
  by (simp add: NewClient_def mongo_Connect_def issue_def log_Print_def log_Printf_def Let_def
        fullyConnected_def exampleDriver_def exampleDial_def)

lemma find_updateFirst: "find P xs = Some d \<Longrightarrow> f d \<in> set (updateFirst P f xs)"
  by (induction xs) (auto split: if_splits)

text \<open>
  Claim C9, as amended. \<^verbatim>\<open>FindOneAndUpdate\<close> issues one call to the driver, which asks for
  the document after the update, for every filter and update document. When that call
  does not fail in the driver and the filter selects a document, the result holds that
  document as it stands after the update, which is the document the collection holds
  afterwards. When the filter selects no document the result is an error:
  \<^verbatim>\<open>ErrNoDocuments\<close>, or the error of the driver when the call fails. When the call fails
  in the driver the result is the driver's error and the collections stay as they were.
\<close>

theorem FindOneAndUpdate_returns_updated:
  "calls (snd (FindOneAndUpdate drv c db col f u w)) =
     calls w @ [CallFindOneAndUpdate (client c) db col f u \<lparr>ReturnDocumentOpt = Some After\<rparr>] \<and>
   (\<forall>d. drv_fault drv (CallFindOneAndUpdate (client c) db col f u
                        \<lparr>ReturnDocumentOpt = Some After\<rparr>) = None \<and>
        find (drv_matches drv f) (store w (db, col)) = Some d \<longrightarrow>
        fst (FindOneAndUpdate drv c db col f u w) =
          Inr \<lparr>Err = None, Doc = Some (drv_apply drv u d)\<rparr> \<and>
        drv_apply drv u d \<in> set (store (snd (FindOneAndUpdate drv c db col f u w)) (db, col))) \<and>
   (find (drv_matches drv f) (store w (db, col)) = None \<longrightarrow>
        fst (FindOneAndUpdate drv c db col f u w) =
          Inl (case drv_fault drv (CallFindOneAndUpdate (client c) db col f u
                                     \<lparr>ReturnDocumentOpt = Some After\<rparr>) of
                 None \<Rightarrow> ErrNoDocuments
               | Some m \<Rightarrow> DriverError m)) \<and>
   (\<forall>m. drv_fault drv (CallFindOneAndUpdate (client c) db col f u
                        \<lparr>ReturnDocumentOpt = Some After\<rparr>) = Some m \<longrightarrow>
        fst (FindOneAndUpdate drv c db col f u w) = Inl (DriverError m) \<and>
        store (snd (FindOneAndUpdate drv c db col f u w)) = store w)"
  by (simp add: FindOneAndUpdate_def Collection_FindOneAndUpdate_def SetReturnDocument_def
        FindOneAndUpdate_options_def issue_def Let_def log_Printf_def find_updateFirst
        split: option.splits)

theorem FindOneAndUpdate_returns_updated_witness:
  "fst (FindOneAndUpdate exampleDriver \<lparr>client = 7\<rparr> ''testdb'' ''testcollection''
          (BDoc [(''k'', BInt 2)]) (BDoc [(''$set'', BDoc [(''n'', BInt 5)])]) exampleWorld) =
     Inr \<lparr>Err = None, Doc = Some [(''k'', BInt 2), (''n'', BInt 5)]\<rparr> \<and>
   [(''k'', BInt 2), (''n'', BInt 5)] \<in>
     set (store (snd (FindOneAndUpdate exampleDriver \<lparr>client = 7\<rparr> ''testdb'' ''testcollection''
          (BDoc [(''k'', BInt 2)]) (BDoc [(''$set'', BDoc [(''n'', BInt 5)])]) exampleWorld))
        (''testdb'', ''testcollection'')) \<and>
   fst (FindOneAndUpdate exampleDriver \<lparr>client = 7\<rparr> ''testdb'' ''testcollection''
          (BDoc [(''k'', BInt 3)]) (BDoc [(''$set'', BDoc [(''n'', BInt 5)])]) exampleWorld) =
     Inl ErrNoDocuments \<and>
   fst (FindOneAndUpdate exampleDriver \<lparr>client = 7\<rparr> ''testdb'' ''testcollection''
          (BDoc [(''k'', BInt 3)]) (BDoc [(''n'', BInt 5)]) exampleWorld) =
     Inl (DriverError ''update document must contain key beginning with $'')"
  using FindOneAndUpdate_returns_updated [of exampleDriver "\<lparr>client = 7\<rparr>" "''testdb''"
      "''testcollection''" "BDoc [(''k'', BInt 2)]" "BDoc [(''$set'', BDoc [(''n'', BInt 5)])]"
      exampleWorld]
    FindOneAndUpdate_returns_updated [of exampleDriver "\<lparr>client = 7\<rparr>" "''testdb''"
      "''testcollection''" "BDoc [(''k'', BInt 3)]" "BDoc [(''$set'', BDoc [(''n'', BInt 5)])]"
      exampleWorld]
    FindOneAndUpdate_returns_updated [of exampleDriver "\<lparr>client = 7\<rparr>" "''testdb''"
      "''testcollection''" "BDoc [(''k'', BInt 3)]" "BDoc [(''n'', BInt 5)]"
      exampleWorld]
  by (simp add: exampleDriver_def exampleWorld_def)

text \<open>
  The claim as it was stated promises the updated document for every filter and update
  document. An update document without an operator key is refused by the driver: the
  filter below selects a document, and the result is the driver's error.
\<close>

theorem FindOneAndUpdate_error_on_match:
  "find (drv_matches exampleDriver (BDoc [(''k'', BInt 2)]))
        (store exampleWorld (''testdb'', ''testcollection'')) = Some [(''k'', BInt 2)] \<and>
   fst (FindOneAndUpdate exampleDriver \<lparr>client = 7\<rparr> ''testdb'' ''testcollection''
          (BDoc [(''k'', BInt 2)]) (BDoc [(''n'', BInt 5)]) exampleWorld) =
     Inl (DriverError ''update document must contain key beginning with $'')"
  by (simp add: FindOneAndUpdate_def Collection_FindOneAndUpdate_def SetReturnDocument_def
        FindOneAndUpdate_options_def issue_def Let_def log_Printf_def exampleDriver_def
        exampleWorld_def)

end
